theory Spec2Isabelle
  imports Complex_Main "HOL-Library.AList"
begin

section \<open>Tensor elements\<close>

text \<open>
  The elements of a \<open>torch.FloatTensor\<close>. The two infinities and NaN are values of their
  own and follow the IEEE 754 rules; a finite element is idealised as a real number, so
  rounding and overflow of finite arithmetic are not part of the model.
\<close>

datatype fval = NInf | Fin real | PInf | NaN

text \<open>
  \<open>torch.max\<close> propagates NaN and otherwise takes the usual maximum, with the infinities
  at the two ends. That is the maximum of the linear order
  \<open>NInf < Fin a < PInf < NaN\<close>.
\<close>

fun fle :: "fval \<Rightarrow> fval \<Rightarrow> bool" where
  "fle NInf _ = True"
| "fle (Fin a) NInf = False"
| "fle (Fin a) (Fin b) = (a \<le> b)"
| "fle (Fin a) PInf = True"
| "fle (Fin a) NaN = True"
| "fle PInf NInf = False"
| "fle PInf (Fin b) = False"
| "fle PInf PInf = True"
| "fle PInf NaN = True"
| "fle NaN NaN = True"
| "fle NaN _ = False"

instantiation fval :: linorder
begin

definition less_eq_fval :: "fval \<Rightarrow> fval \<Rightarrow> bool" where
  "less_eq_fval a b = fle a b"

definition less_fval :: "fval \<Rightarrow> fval \<Rightarrow> bool" where
  "less_fval a b = (fle a b \<and> \<not> fle b a)"

instance
proof
  fix x y z :: fval
  show "(x < y) = (x \<le> y \<and> \<not> y \<le> x)"
    by (simp add: less_eq_fval_def less_fval_def)
  show "x \<le> x"
    by (cases x) (simp_all add: less_eq_fval_def)
  show "x \<le> y \<Longrightarrow> y \<le> z \<Longrightarrow> x \<le> z"
    by (cases x; cases y; cases z) (simp_all add: less_eq_fval_def)
  show "x \<le> y \<Longrightarrow> y \<le> x \<Longrightarrow> x = y"
    by (cases x; cases y) (simp_all add: less_eq_fval_def)
  show "x \<le> y \<or> y \<le> x"
    by (cases x; cases y) (auto simp add: less_eq_fval_def)
qed

end

fun fneg :: "fval \<Rightarrow> fval" where
  "fneg NInf = PInf"
| "fneg (Fin a) = Fin (- a)"
| "fneg PInf = NInf"
| "fneg NaN = NaN"

fun fadd :: "fval \<Rightarrow> fval \<Rightarrow> fval" where
  "fadd NaN _ = NaN"
| "fadd _ NaN = NaN"
| "fadd (Fin a) (Fin b) = Fin (a + b)"
| "fadd PInf NInf = NaN"
| "fadd NInf PInf = NaN"
| "fadd PInf _ = PInf"
| "fadd _ PInf = PInf"
| "fadd NInf _ = NInf"
| "fadd _ NInf = NInf"

definition fsub :: "fval \<Rightarrow> fval \<Rightarrow> fval" where
  "fsub a b = fadd a (fneg b)"

text \<open>The sign of an infinite product or quotient; zero times infinity is NaN.\<close>

definition signed_inf :: "bool \<Rightarrow> fval" where
  "signed_inf pos = (if pos then PInf else NInf)"

fun fmul :: "fval \<Rightarrow> fval \<Rightarrow> fval" where
  "fmul NaN _ = NaN"
| "fmul _ NaN = NaN"
| "fmul (Fin a) (Fin b) = Fin (a * b)"
| "fmul (Fin a) PInf = (if a = 0 then NaN else signed_inf (0 < a))"
| "fmul (Fin a) NInf = (if a = 0 then NaN else signed_inf (a < 0))"
| "fmul PInf (Fin b) = (if b = 0 then NaN else signed_inf (0 < b))"
| "fmul NInf (Fin b) = (if b = 0 then NaN else signed_inf (b < 0))"
| "fmul PInf PInf = PInf"
| "fmul NInf NInf = PInf"
| "fmul PInf NInf = NInf"
| "fmul NInf PInf = NInf"

text \<open>
  Division: zero by zero and infinity by infinity are NaN, a finite value by an infinity
  is zero. The sign of a zero is not modelled: a non-zero value divided by zero is the
  infinity of the dividend's sign.
\<close>

fun fdiv :: "fval \<Rightarrow> fval \<Rightarrow> fval" where
  "fdiv NaN _ = NaN"
| "fdiv _ NaN = NaN"
| "fdiv (Fin a) (Fin b) =
     (if b = 0 then (if a = 0 then NaN else signed_inf (0 < a)) else Fin (a / b))"
| "fdiv (Fin a) PInf = Fin 0"
| "fdiv (Fin a) NInf = Fin 0"
| "fdiv PInf (Fin b) = signed_inf (0 \<le> b)"
| "fdiv NInf (Fin b) = signed_inf (b < 0)"
| "fdiv PInf PInf = NaN"
| "fdiv PInf NInf = NaN"
| "fdiv NInf PInf = NaN"
| "fdiv NInf NInf = NaN"

fun fexp :: "fval \<Rightarrow> fval" where
  "fexp NInf = Fin 0"
| "fexp (Fin a) = Fin (exp a)"
| "fexp PInf = PInf"
| "fexp NaN = NaN"

fun is_finite :: "fval \<Rightarrow> bool" where
  "is_finite (Fin a) = True"
| "is_finite _ = False"

subsection \<open>Reductions of one column\<close>

text \<open>
  A reduction along one axis works on the column of elements that differ only in the
  index of that axis. \<open>maxl\<close> is the maximum of a non-empty column and \<open>fsum\<close> the sum of
  a column, from zero. \<open>softmaxl\<close> is \<open>F.softmax\<close> on one column: torch subtracts the
  maximum of the column before it exponentiates, then divides by the sum.
\<close>

definition maxl :: "fval list \<Rightarrow> fval" where
  "maxl vs = fold max (tl vs) (hd vs)"

definition fsum :: "fval list \<Rightarrow> fval" where
  "fsum vs = foldl fadd (Fin 0) vs"

definition softmaxl :: "fval list \<Rightarrow> fval list" where
  "softmaxl vs =
     (let m = maxl vs;
          es = map (\<lambda>v. fexp (fsub v m)) vs;
          z = fsum es
      in map (\<lambda>e. fdiv e z) es)"

section \<open>Tensors\<close>

text \<open>
  A tensor carries its shape, as \<open>x.size()\<close> reports it, and its elements as nested lists,
  outermost axis first. The input of a reducer is \<open>T x S x B x C\<close>; a mask of a source
  branch is \<open>B x S\<close>.
\<close>

record 'd tensor =
  shape :: "nat list"
  data :: 'd

type_synonym 'a tensor2 = "'a list list tensor"
type_synonym 'a tensor3 = "'a list list list tensor"
type_synonym 'a tensor4 = "'a list list list list tensor"

definition rank :: "'d tensor \<Rightarrow> nat" where
  "rank x = length (shape x)"

definition rect2 :: "nat \<Rightarrow> nat \<Rightarrow> 'a list list \<Rightarrow> bool" where
  "rect2 n0 n1 d = (length d = n0 \<and> list_all (\<lambda>r. length r = n1) d)"

definition rect3 :: "nat \<Rightarrow> nat \<Rightarrow> nat \<Rightarrow> 'a list list list \<Rightarrow> bool" where
  "rect3 n0 n1 n2 d = (length d = n0 \<and> list_all (rect2 n1 n2) d)"

definition rect4 :: "nat \<Rightarrow> nat \<Rightarrow> nat \<Rightarrow> nat \<Rightarrow> 'a list list list list \<Rightarrow> bool" where
  "rect4 n0 n1 n2 n3 d = (length d = n0 \<and> list_all (rect3 n1 n2 n3) d)"

text \<open>
  \<open>is_tensor4 T S B C x\<close>: the record \<open>x\<close> is a tensor of shape \<open>[T, S, B, C]\<close>, its
  elements laid out as the shape says.
\<close>

definition is_tensor2 :: "nat \<Rightarrow> nat \<Rightarrow> 'a tensor2 \<Rightarrow> bool" where
  "is_tensor2 n0 n1 x = (shape x = [n0, n1] \<and> rect2 n0 n1 (data x))"

definition is_tensor3 :: "nat \<Rightarrow> nat \<Rightarrow> nat \<Rightarrow> 'a tensor3 \<Rightarrow> bool" where
  "is_tensor3 n0 n1 n2 x = (shape x = [n0, n1, n2] \<and> rect3 n0 n1 n2 (data x))"

definition is_tensor4 :: "nat \<Rightarrow> nat \<Rightarrow> nat \<Rightarrow> nat \<Rightarrow> 'a tensor4 \<Rightarrow> bool" where
  "is_tensor4 n0 n1 n2 n3 x = (shape x = [n0, n1, n2, n3] \<and> rect4 n0 n1 n2 n3 (data x))"

definition dims2 :: "'d tensor \<Rightarrow> (nat \<times> nat) option" where
  "dims2 x = (case shape x of [a, b] \<Rightarrow> Some (a, b) | _ \<Rightarrow> None)"

definition dims4 :: "'d tensor \<Rightarrow> (nat \<times> nat \<times> nat \<times> nat) option" where
  "dims4 x = (case shape x of [a, b, c, d] \<Rightarrow> Some (a, b, c, d) | _ \<Rightarrow> None)"

definition tab2 :: "nat \<Rightarrow> nat \<Rightarrow> (nat \<Rightarrow> nat \<Rightarrow> 'a) \<Rightarrow> 'a list list" where
  "tab2 n0 n1 f = map (\<lambda>i. map (\<lambda>j. f i j) [0..<n1]) [0..<n0]"

definition tab3 :: "nat \<Rightarrow> nat \<Rightarrow> nat \<Rightarrow> (nat \<Rightarrow> nat \<Rightarrow> nat \<Rightarrow> 'a) \<Rightarrow> 'a list list list" where
  "tab3 n0 n1 n2 f = map (\<lambda>i. tab2 n1 n2 (f i)) [0..<n0]"

definition tab4 ::
  "nat \<Rightarrow> nat \<Rightarrow> nat \<Rightarrow> nat \<Rightarrow> (nat \<Rightarrow> nat \<Rightarrow> nat \<Rightarrow> nat \<Rightarrow> 'a) \<Rightarrow> 'a list list list list" where
  "tab4 n0 n1 n2 n3 f = map (\<lambda>i. tab3 n1 n2 n3 (f i)) [0..<n0]"

definition at2 :: "'a tensor2 \<Rightarrow> nat \<Rightarrow> nat \<Rightarrow> 'a" where
  "at2 x i j = data x ! i ! j"

definition at3 :: "'a tensor3 \<Rightarrow> nat \<Rightarrow> nat \<Rightarrow> nat \<Rightarrow> 'a" where
  "at3 x i j k = data x ! i ! j ! k"

definition at4 :: "'a tensor4 \<Rightarrow> nat \<Rightarrow> nat \<Rightarrow> nat \<Rightarrow> nat \<Rightarrow> 'a" where
  "at4 x t s b c = data x ! t ! s ! b ! c"

datatype error =
  KeyError | TypeError | ZeroDivisionError | AttributeError | RuntimeError | AssertionError
  | NotImplementedError

subsection \<open>The torch operations the reducer calls\<close>

text \<open>
  Every failure of a torch operation is the one error value \<open>RuntimeError\<close>.

  \<open>torch.cat((a, b), dim=0)\<close>: the sizes of all axes but the first must agree.
\<close>

definition cat0 :: "'a list tensor \<Rightarrow> 'a list tensor \<Rightarrow> error + 'a list tensor" where
  "cat0 a b =
     (case (shape a, shape b) of
        (ta # ra, tb # rb) \<Rightarrow>
          if ra = rb then Inr \<lparr>shape = (ta + tb) # ra, data = data a @ data b\<rparr>
          else Inl RuntimeError
      | _ \<Rightarrow> Inl RuntimeError)"

text \<open>\<open>x[:n, :, :, :]\<close>, \<open>x[i, :, :, :]\<close> for an index in range, and \<open>y.unsqueeze(0)\<close>.\<close>

definition take0 :: "nat \<Rightarrow> 'a list tensor \<Rightarrow> 'a list tensor" where
  "take0 n x =
     (case shape x of
        [] \<Rightarrow> x
      | t # r \<Rightarrow> \<lparr>shape = min n t # r, data = take n (data x)\<rparr>)"

definition select0 :: "'a list tensor \<Rightarrow> nat \<Rightarrow> 'a tensor" where
  "select0 x i = \<lparr>shape = tl (shape x), data = data x ! i\<rparr>"

definition unsqueeze0 :: "'a tensor \<Rightarrow> 'a list tensor" where
  "unsqueeze0 y = \<lparr>shape = 1 # shape y, data = [data y]\<rparr>"

text \<open>\<open>torch.max(a, b)\<close> of two tensors of one shape, element by element.\<close>

definition max3 :: "fval tensor3 \<Rightarrow> fval tensor3 \<Rightarrow> fval tensor3" where
  "max3 a b =
     \<lparr>shape = shape a,
      data = map2 (\<lambda>p q. map2 (\<lambda>u v. map2 max u v) p q) (data a) (data b)\<rparr>"

text \<open>
  \<open>x.max(dim=0)[0]\<close> and \<open>x.max(dim=1)[0]\<close>: torch refuses to reduce an axis of size
  zero.
\<close>

definition max_dim0 :: "fval tensor4 \<Rightarrow> error + fval tensor3" where
  "max_dim0 x =
     (case dims4 x of
        None \<Rightarrow> Inl RuntimeError
      | Some (T, S, B, C) \<Rightarrow>
          if T = 0 then Inl RuntimeError
          else Inr \<lparr>shape = [S, B, C],
                    data = tab3 S B C (\<lambda>s b c. maxl (map (\<lambda>t. at4 x t s b c) [0..<T]))\<rparr>)"

definition max_dim1 :: "fval tensor4 \<Rightarrow> error + fval tensor3" where
  "max_dim1 x =
     (case dims4 x of
        None \<Rightarrow> Inl RuntimeError
      | Some (T, S, B, C) \<Rightarrow>
          if S = 0 then Inl RuntimeError
          else Inr \<lparr>shape = [T, B, C],
                    data = tab3 T B C (\<lambda>t b c. maxl (map (\<lambda>s. at4 x t s b c) [0..<S]))\<rparr>)"

text \<open>
  \<open>mask.transpose(0, 1).unsqueeze(0).unsqueeze(-1)\<close> turns a \<open>B x S\<close> mask into a
  \<open>1 x S x B x 1\<close> view.
\<close>

definition mask_view :: "bool tensor2 \<Rightarrow> bool tensor4" where
  "mask_view m =
     (case dims2 m of
        None \<Rightarrow> \<lparr>shape = [], data = []\<rparr>
      | Some (B, S) \<Rightarrow>
          \<lparr>shape = [1, S, B, 1], data = tab4 1 S B 1 (\<lambda>t s b c. at2 m b s)\<rparr>)"

text \<open>
  \<open>x.masked_fill(mask, v)\<close>: the mask is expanded to the shape of \<open>x\<close>; an axis of the
  mask fits when it has the size of the axis of \<open>x\<close> or size one, and an axis of size one
  is read at index zero.
\<close>

definition bidx :: "nat \<Rightarrow> nat \<Rightarrow> nat" where
  "bidx n i = (if n = 1 then 0 else i)"

definition fits :: "nat \<Rightarrow> nat \<Rightarrow> bool" where
  "fits m n = (m = n \<or> m = 1)"

definition masked_fill :: "fval tensor4 \<Rightarrow> bool tensor4 \<Rightarrow> fval \<Rightarrow> error + fval tensor4" where
  "masked_fill x m v =
     (case (dims4 x, dims4 m) of
        (Some (T, S, B, C), Some (m0, m1, m2, m3)) \<Rightarrow>
          if fits m0 T \<and> fits m1 S \<and> fits m2 B \<and> fits m3 C
          then Inr \<lparr>shape = [T, S, B, C],
                    data = tab4 T S B C
                      (\<lambda>t s b c. if at4 m (bidx m0 t) (bidx m1 s) (bidx m2 b) (bidx m3 c)
                                  then v else at4 x t s b c)\<rparr>
          else Inl RuntimeError
      | _ \<Rightarrow> Inl RuntimeError)"

text \<open>
  \<open>F.linear(x, w)\<close> without bias: \<open>w\<close> is \<open>D_out x D_in\<close>, the last axis of \<open>x\<close> must have
  size \<open>D_in\<close>, and \<open>out[t,s,b,d]\<close> is the dot product of \<open>x[t,s,b,:]\<close> and \<open>w[d,:]\<close>.
\<close>

definition linear :: "fval tensor4 \<Rightarrow> fval tensor2 \<Rightarrow> error + fval tensor4" where
  "linear x w =
     (case (dims4 x, dims2 w) of
        (Some (T, S, B, C), Some (dout, din)) \<Rightarrow>
          if din = C
          then Inr \<lparr>shape = [T, S, B, dout],
                    data = tab4 T S B dout
                      (\<lambda>t s b d. fsum (map (\<lambda>c. fmul (at4 x t s b c) (at2 w d c)) [0..<C]))\<rparr>
          else Inl RuntimeError
      | _ \<Rightarrow> Inl RuntimeError)"

text \<open>\<open>F.softmax(x, dim=0)\<close> and \<open>F.softmax(x, dim=1)\<close>: the shape stays.\<close>

definition softmax_dim0 :: "fval tensor4 \<Rightarrow> fval tensor4" where
  "softmax_dim0 x =
     (case dims4 x of
        None \<Rightarrow> x
      | Some (T, S, B, C) \<Rightarrow>
          \<lparr>shape = [T, S, B, C],
           data = tab4 T S B C
             (\<lambda>t s b c. softmaxl (map (\<lambda>t'. at4 x t' s b c) [0..<T]) ! t)\<rparr>)"

definition softmax_dim1 :: "fval tensor4 \<Rightarrow> fval tensor4" where
  "softmax_dim1 x =
     (case dims4 x of
        None \<Rightarrow> x
      | Some (T, S, B, C) \<Rightarrow>
          \<lparr>shape = [T, S, B, C],
           data = tab4 T S B C
             (\<lambda>t s b c. softmaxl (map (\<lambda>s'. at4 x t s' b c) [0..<S]) ! s)\<rparr>)"

text \<open>\<open>p * x\<close> for two tensors of one shape; other shapes are refused.\<close>

definition mul4 :: "fval tensor4 \<Rightarrow> fval tensor4 \<Rightarrow> error + fval tensor4" where
  "mul4 p x =
     (case dims4 x of
        None \<Rightarrow> Inl RuntimeError
      | Some (T, S, B, C) \<Rightarrow>
          if shape p = shape x
          then Inr \<lparr>shape = [T, S, B, C],
                    data = tab4 T S B C (\<lambda>t s b c. fmul (at4 p t s b c) (at4 x t s b c))\<rparr>
          else Inl RuntimeError)"

text \<open>\<open>torch.sum(y, dim=0)\<close> and \<open>torch.sum(y, dim=1)\<close>; the sum of no elements is zero.\<close>

definition sum_dim0 :: "fval tensor4 \<Rightarrow> error + fval tensor3" where
  "sum_dim0 y =
     (case dims4 y of
        None \<Rightarrow> Inl RuntimeError
      | Some (T, S, B, C) \<Rightarrow>
          Inr \<lparr>shape = [S, B, C],
               data = tab3 S B C (\<lambda>s b c. fsum (map (\<lambda>t. at4 y t s b c) [0..<T]))\<rparr>)"

definition sum_dim1 :: "fval tensor4 \<Rightarrow> error + fval tensor3" where
  "sum_dim1 y =
     (case dims4 y of
        None \<Rightarrow> Inl RuntimeError
      | Some (T, S, B, C) \<Rightarrow>
          Inr \<lparr>shape = [T, B, C],
               data = tab3 T B C (\<lambda>t b c. fsum (map (\<lambda>s. at4 y t s b c) [0..<S]))\<rparr>)"

text \<open>\<open>torch.isnan(x).byte().any()\<close>.\<close>

definition isnan_any3 :: "fval tensor3 \<Rightarrow> bool" where
  "isnan_any3 x = list_ex (list_ex (list_ex (\<lambda>v. v = NaN))) (data x)"

definition isnan_any4 :: "fval tensor4 \<Rightarrow> bool" where
  "isnan_any4 x = list_ex (list_ex (list_ex (list_ex (\<lambda>v. v = NaN)))) (data x)"

text \<open>
  \<open>x.index_select(2, new_order)\<close>: \<open>out[t,s,j,c] = x[t,s,new_order[j],c]\<close>; an index
  outside \<open>0..B-1\<close> is refused.
\<close>

definition index_select2 :: "fval tensor4 \<Rightarrow> int list \<Rightarrow> error + fval tensor4" where
  "index_select2 x new_order =
     (case dims4 x of
        None \<Rightarrow> Inl RuntimeError
      | Some (T, S, B, C) \<Rightarrow>
          if list_all (\<lambda>i. 0 \<le> i \<and> i < int B) new_order
          then Inr \<lparr>shape = [T, S, length new_order, C],
                    data = tab4 T S (length new_order) C
                      (\<lambda>t s j c. at4 x t s (nat (new_order ! j)) c)\<rparr>
          else Inl RuntimeError)"

section \<open>The incremental state\<close>

text \<open>
  The session container maps the key of a module instance and a name to the saved state
  of that instance, a dictionary from buffer names to tensors. The dictionary is an
  association list in insertion order, because \<open>reorder_incremental_state\<close> walks its
  keys. A caller without a session passes \<open>None\<close>.
\<close>

type_synonym saved_state = "(string \<times> fval tensor4) list"
type_synonym inc_state = "nat \<times> string \<Rightarrow> saved_state option"

datatype closure = MaxSrc | MaxTgt | AttnSrc | AttnTgt | SoftmaxSrc | SoftmaxTgt

text \<open>
  A \<open>Reducer\<close> object: its identity, the attributes \<open>__init__\<close> sets, the parameter
  \<open>weights\<close> that only the \<open>attn\<close> factory creates, and the function the factory
  returned.
\<close>

record reducer =
  instance_id :: nat
  method_name :: string
  reduce_src :: bool
  weights :: "fval tensor2 option"
  customize_forward :: closure

text \<open>
  Modelled from the spec: \<open>utils.get_incremental_state\<close> and
  \<open>utils.set_incremental_state\<close> are not in the source file. The container is keyed by
  a stable identity of the owning instance, then by a fixed name; reading yields nothing
  for a \<open>None\<close> container or an absent key, writing stores the value under the key and
  does nothing on a \<open>None\<close> container.
\<close>

definition get_incremental_state ::
  "reducer \<Rightarrow> inc_state option \<Rightarrow> string \<Rightarrow> saved_state option" where
  "get_incremental_state r incremental_state key =
     (case incremental_state of
        None \<Rightarrow> None
      | Some st \<Rightarrow> st (instance_id r, key))"

definition set_incremental_state ::
  "reducer \<Rightarrow> inc_state option \<Rightarrow> string \<Rightarrow> saved_state \<Rightarrow> inc_state option" where
  "set_incremental_state r incremental_state key v =
     (case incremental_state of
        None \<Rightarrow> None
      | Some st \<Rightarrow> Some (st((instance_id r, key) \<mapsto> v)))"

text \<open>\<open>utils.get_incremental_state(...) or {}\<close>: nothing and an empty dictionary both give \<open>{}\<close>.\<close>

definition get_input_buffer :: "reducer \<Rightarrow> inc_state option \<Rightarrow> saved_state" where
  "get_input_buffer r incremental_state =
     (case get_incremental_state r incremental_state ''repr_state'' of
        None \<Rightarrow> []
      | Some b \<Rightarrow> if b = [] then [] else b)"

definition set_input_buffer ::
  "reducer \<Rightarrow> inc_state option \<Rightarrow> saved_state \<Rightarrow> inc_state option" where
  "set_input_buffer r incremental_state buffer =
     set_incremental_state r incremental_state ''repr_state'' buffer"

text \<open>
  \<open>_prepare_repr\<close>. Every function that can touch the session returns its result, or the
  error it raised, together with the container it leaves behind.
\<close>

definition prepare_repr ::
  "reducer \<Rightarrow> fval tensor4 \<Rightarrow> inc_state option \<Rightarrow> (error + fval tensor4) \<times> inc_state option" where
  "prepare_repr r x incremental_state =
     (if incremental_state \<noteq> None then
        (let saved_state = get_input_buffer r incremental_state in
         case (case map_of saved_state ''prev_repr'' of
                 Some prev \<Rightarrow> cat0 prev x
               | None \<Rightarrow> Inr x) of
           Inl e \<Rightarrow> (Inl e, incremental_state)
         | Inr x' \<Rightarrow>
             (Inr x',
              set_input_buffer r incremental_state
                (AList.update ''prev_repr'' x' saved_state)))
      else (Inr x, incremental_state))"

text \<open>
  \<open>reorder_incremental_state\<close>. The loop assigns into the dictionary key by key; the
  dictionary it walks is the one the container holds whenever it has a key at all, so
  an error in the middle leaves the earlier assignments in the container.
\<close>

fun reorder_loop :: "saved_state \<Rightarrow> int list \<Rightarrow> string list \<Rightarrow> error option \<times> saved_state" where
  "reorder_loop input_buffer new_order [] = (None, input_buffer)"
| "reorder_loop input_buffer new_order (k # ks) =
     (case map_of input_buffer k of
        None \<Rightarrow> (Some KeyError, input_buffer)
      | Some v \<Rightarrow>
          (case index_select2 v new_order of
             Inl e \<Rightarrow> (Some e, input_buffer)
           | Inr v' \<Rightarrow> reorder_loop (AList.update k v' input_buffer) new_order ks))"

definition reorder_incremental_state ::
  "reducer \<Rightarrow> inc_state option \<Rightarrow> int list \<Rightarrow> (error + unit) \<times> inc_state option" where
  "reorder_incremental_state r incremental_state new_order =
     (let input_buffer = get_input_buffer r incremental_state in
      case reorder_loop input_buffer new_order (map fst input_buffer) of
        (Some e, b) \<Rightarrow> (Inl e, set_input_buffer r incremental_state b)
      | (None, b) \<Rightarrow> (Inr (), set_input_buffer r incremental_state b))"

section \<open>The strategies\<close>

text \<open>
  A mask is a byte tensor (\<open>B x S\<close>, for a source branch) or a float tensor (\<open>T x T\<close>,
  for a target branch); \<open>masked_fill\<close> refuses a float mask. A call returns a tensor of
  rank three or four.
\<close>

datatype mask = ByteMask "bool tensor2" | FloatMask "fval tensor2"

datatype tensor_out = T3 "fval tensor3" | T4 "fval tensor4"

fun out_shape :: "tensor_out \<Rightarrow> nat list" where
  "out_shape (T3 y) = shape y"
| "out_shape (T4 y) = shape y"

definition out_rank :: "tensor_out \<Rightarrow> nat" where
  "out_rank y = length (out_shape y)"

text \<open>
  The lines every source branch starts with:
  \<open>if mask is not None: w = w.masked_fill(mask.transpose(0, 1).unsqueeze(0).unsqueeze(-1), -inf)\<close>.
\<close>

definition fill_masked :: "fval tensor4 \<Rightarrow> mask option \<Rightarrow> error + fval tensor4" where
  "fill_masked w msk =
     (case msk of
        None \<Rightarrow> Inr w
      | Some (ByteMask m) \<Rightarrow> masked_fill w (mask_view m) NInf
      | Some (FloatMask m) \<Rightarrow> Inl RuntimeError)"

subsection \<open>max\<close>

definition max_reduce_src ::
  "fval tensor4 \<Rightarrow> mask option \<Rightarrow> inc_state option \<Rightarrow> (error + tensor_out) \<times> inc_state option" where
  "max_reduce_src x msk incremental_state =
     (case fill_masked x msk of
        Inl e \<Rightarrow> (Inl e, incremental_state)
      | Inr x' \<Rightarrow>
          (case max_dim1 x' of
             Inl e \<Rightarrow> (Inl e, incremental_state)
           | Inr y \<Rightarrow> (Inr (T3 y), incremental_state)))"

definition size0 :: "'d tensor \<Rightarrow> nat" where
  "size0 x = (case shape x of [] \<Rightarrow> 0 | t # r \<Rightarrow> t)"

text \<open>
  The training loop of the target branch:
  \<open>for i in range(1, x.size(0)): out = torch.cat((out, torch.max(x[i], out[i - 1]).unsqueeze(0)), dim=0)\<close>.
\<close>

fun max_loop :: "fval tensor4 \<Rightarrow> fval tensor4 \<Rightarrow> nat list \<Rightarrow> error + fval tensor4" where
  "max_loop x out [] = Inr out"
| "max_loop x out (i # is) =
     (case cat0 out (unsqueeze0 (max3 (select0 x i) (select0 out (i - 1)))) of
        Inl e \<Rightarrow> Inl e
      | Inr out' \<Rightarrow> max_loop x out' is)"

definition max_train :: "fval tensor4 \<Rightarrow> error + fval tensor4" where
  "max_train x = max_loop x (take0 1 x) [1..<size0 x]"

definition max_reduce_tgt ::
  "reducer \<Rightarrow> fval tensor4 \<Rightarrow> mask option \<Rightarrow> inc_state option \<Rightarrow>
     (error + tensor_out) \<times> inc_state option" where
  "max_reduce_tgt r x msk incremental_state =
     (case prepare_repr r x incremental_state of
        (Inl e, st) \<Rightarrow> (Inl e, st)
      | (Inr x', st) \<Rightarrow>
          if msk = None then
            (case max_dim0 x' of
               Inl e \<Rightarrow> (Inl e, st)
             | Inr y \<Rightarrow> (Inr (T3 y), st))
          else
            (case max_train x' of
               Inl e \<Rightarrow> (Inl e, st)
             | Inr out \<Rightarrow> (Inr (T4 out), st)))"

subsection \<open>attn\<close>

text \<open>The probability tensor of the source branch, \<open>prob\<close> in the code.\<close>

definition attn_src_prob :: "reducer \<Rightarrow> fval tensor4 \<Rightarrow> mask option \<Rightarrow> error + fval tensor4" where
  "attn_src_prob r x msk =
     (case weights r of
        None \<Rightarrow> Inl AttributeError
      | Some w \<Rightarrow>
          (case linear x w of
             Inl e \<Rightarrow> Inl e
           | Inr ws \<Rightarrow>
               (case fill_masked ws msk of
                  Inl e \<Rightarrow> Inl e
                | Inr ws' \<Rightarrow> Inr (softmax_dim1 ws'))))"

definition attn_reduce_src ::
  "reducer \<Rightarrow> fval tensor4 \<Rightarrow> mask option \<Rightarrow> inc_state option \<Rightarrow>
     (error + tensor_out) \<times> inc_state option" where
  "attn_reduce_src r x msk incremental_state =
     (case attn_src_prob r x msk of
        Inl e \<Rightarrow> (Inl e, incremental_state)
      | Inr prob \<Rightarrow>
          if isnan_any4 prob then (Inl AssertionError, incremental_state)
          else
            (case mul4 prob x of
               Inl e \<Rightarrow> (Inl e, incremental_state)
             | Inr px \<Rightarrow>
                 (case sum_dim1 px of
                    Inl e \<Rightarrow> (Inl e, incremental_state)
                  | Inr y \<Rightarrow> (Inr (T3 y), incremental_state))))"

definition attn_reduce_tgt ::
  "reducer \<Rightarrow> fval tensor4 \<Rightarrow> mask option \<Rightarrow> inc_state option \<Rightarrow>
     (error + tensor_out) \<times> inc_state option" where
  "attn_reduce_tgt r x msk incremental_state = (Inl NotImplementedError, incremental_state)"

subsection \<open>softmax\<close>

definition softmax_src_prob :: "fval tensor4 \<Rightarrow> mask option \<Rightarrow> error + fval tensor4" where
  "softmax_src_prob x msk =
     (case fill_masked x msk of
        Inl e \<Rightarrow> Inl e
      | Inr ws \<Rightarrow> Inr (softmax_dim1 ws))"

definition softmax_reduce_src ::
  "fval tensor4 \<Rightarrow> mask option \<Rightarrow> inc_state option \<Rightarrow> (error + tensor_out) \<times> inc_state option" where
  "softmax_reduce_src x msk incremental_state =
     (case softmax_src_prob x msk of
        Inl e \<Rightarrow> (Inl e, incremental_state)
      | Inr prob \<Rightarrow>
          if isnan_any4 prob then (Inl AssertionError, incremental_state)
          else
            (case mul4 prob x of
               Inl e \<Rightarrow> (Inl e, incremental_state)
             | Inr px \<Rightarrow>
                 (case sum_dim1 px of
                    Inl e \<Rightarrow> (Inl e, incremental_state)
                  | Inr y \<Rightarrow>
                      if isnan_any3 y then (Inl AssertionError, incremental_state)
                      else (Inr (T3 y), incremental_state))))"

text \<open>\<open>torch.sum(F.softmax(z, dim=0) * z, dim=0)\<close>.\<close>

definition weighted_sum0 :: "fval tensor4 \<Rightarrow> error + fval tensor3" where
  "weighted_sum0 z =
     (case mul4 (softmax_dim0 z) z of
        Inl e \<Rightarrow> Inl e
      | Inr pz \<Rightarrow> sum_dim0 pz)"

fun softmax_loop :: "fval tensor4 \<Rightarrow> fval tensor4 \<Rightarrow> nat list \<Rightarrow> error + fval tensor4" where
  "softmax_loop x out [] = Inr out"
| "softmax_loop x out (i # is) =
     (case weighted_sum0 (take0 (i + 1) x) of
        Inl e \<Rightarrow> Inl e
      | Inr y \<Rightarrow>
          (case cat0 out (unsqueeze0 y) of
             Inl e \<Rightarrow> Inl e
           | Inr out' \<Rightarrow> softmax_loop x out' is))"

definition softmax_train :: "fval tensor4 \<Rightarrow> error + fval tensor4" where
  "softmax_train x = softmax_loop x (take0 1 x) [1..<size0 x]"

definition softmax_reduce_tgt ::
  "reducer \<Rightarrow> fval tensor4 \<Rightarrow> mask option \<Rightarrow> inc_state option \<Rightarrow>
     (error + tensor_out) \<times> inc_state option" where
  "softmax_reduce_tgt r x msk incremental_state =
     (case prepare_repr r x incremental_state of
        (Inl e, st) \<Rightarrow> (Inl e, st)
      | (Inr x', st) \<Rightarrow>
          if msk = None then
            (let prob = softmax_dim0 x' in
             if isnan_any4 prob then (Inl AssertionError, st)
             else
               (case mul4 prob x' of
                  Inl e \<Rightarrow> (Inl e, st)
                | Inr px \<Rightarrow>
                    (case sum_dim0 px of
                       Inl e \<Rightarrow> (Inl e, st)
                     | Inr y \<Rightarrow> (Inr (T3 y), st))))
          else
            (case softmax_train x' of
               Inl e \<Rightarrow> (Inl e, st)
             | Inr out \<Rightarrow> (Inr (T4 out), st)))"

section \<open>The registry and the Reducer\<close>

datatype factory = MaxFactory | AttnFactory | SoftmaxFactory

text \<open>\<open>Reducer.VALID_REDUCER\<close> once the module is loaded: the three decorated methods.\<close>

definition VALID_REDUCER :: "string \<Rightarrow> factory option" where
  "VALID_REDUCER =
     map_of [(''max'', MaxFactory), (''attn'', AttnFactory), (''softmax'', SoftmaxFactory)]"

record flags =
  decoder_model_dim :: int

text \<open>
  \<open>__init__\<close>. \<open>ident\<close> is the identity of the new object and \<open>args\<close> what the caller
  passes on to the factory: the \<open>attn\<close> factory needs its \<open>flags\<close>, the others take
  anything. \<open>nn.init.normal_\<close> draws the weights at random; the values drawn are the
  parameter \<open>sample\<close>. \<open>torch.Tensor(d, d)\<close> refuses a negative size and
  \<open>d ** -0.5\<close> raises for zero.
\<close>

definition Reducer_init ::
  "nat \<Rightarrow> string \<Rightarrow> bool \<Rightarrow> flags option \<Rightarrow> (nat \<Rightarrow> nat \<Rightarrow> real) \<Rightarrow> error + reducer" where
  "Reducer_init ident meth rsrc args sample =
     (case VALID_REDUCER meth of
        None \<Rightarrow> Inl KeyError
      | Some MaxFactory \<Rightarrow>
          Inr \<lparr>instance_id = ident, method_name = meth, reduce_src = rsrc, weights = None,
               customize_forward = (if rsrc then MaxSrc else MaxTgt)\<rparr>
      | Some AttnFactory \<Rightarrow>
          (case args of
             None \<Rightarrow> Inl TypeError
           | Some fl \<Rightarrow>
               if decoder_model_dim fl < 0 then Inl RuntimeError
               else if decoder_model_dim fl = 0 then Inl ZeroDivisionError
               else
                 (let d = nat (decoder_model_dim fl) in
                  Inr \<lparr>instance_id = ident, method_name = meth, reduce_src = rsrc,
                       weights = Some \<lparr>shape = [d, d],
                                       data = tab2 d d (\<lambda>i j. Fin (sample i j))\<rparr>,
                       customize_forward = (if rsrc then AttnSrc else AttnTgt)\<rparr>))
      | Some SoftmaxFactory \<Rightarrow>
          Inr \<lparr>instance_id = ident, method_name = meth, reduce_src = rsrc, weights = None,
               customize_forward = (if rsrc then SoftmaxSrc else SoftmaxTgt)\<rparr>)"

definition forward ::
  "reducer \<Rightarrow> fval tensor4 \<Rightarrow> mask option \<Rightarrow> inc_state option \<Rightarrow>
     (error + tensor_out) \<times> inc_state option" where
  "forward r x msk incremental_state =
     (case customize_forward r of
        MaxSrc \<Rightarrow> max_reduce_src x msk incremental_state
      | MaxTgt \<Rightarrow> max_reduce_tgt r x msk incremental_state
      | AttnSrc \<Rightarrow> attn_reduce_src r x msk incremental_state
      | AttnTgt \<Rightarrow> attn_reduce_tgt r x msk incremental_state
      | SoftmaxSrc \<Rightarrow> softmax_reduce_src x msk incremental_state
      | SoftmaxTgt \<Rightarrow> softmax_reduce_tgt r x msk incremental_state)"

section \<open>Sessions\<close>

text \<open>
  The buffer \<open>prev_repr\<close> that a container holds for a Reducer, if any, and a run of
  \<open>_prepare_repr\<close> calls on one container, in call order: the list of what the calls
  returned and the container after the last one.
\<close>

definition buffer_of :: "reducer \<Rightarrow> inc_state option \<Rightarrow> fval tensor4 option" where
  "buffer_of r incremental_state = map_of (get_input_buffer r incremental_state) ''prev_repr''"

fun prepare_calls ::
  "reducer \<Rightarrow> fval tensor4 list \<Rightarrow> inc_state option \<Rightarrow>
     (error + fval tensor4) list \<times> inc_state option" where
  "prepare_calls r [] st = ([], st)"
| "prepare_calls r (x # xs) st =
     (case prepare_repr r x st of
        (y, st') \<Rightarrow> (case prepare_calls r xs st' of (ys, st'') \<Rightarrow> (y # ys, st'')))"

text \<open>
  Decoding a sequence: the time slices \<open>x[i:i+1]\<close> of a tensor, and a run of calls with
  \<open>mask = None\<close> on one container, one call per slice.
\<close>

definition slice0 :: "'a list tensor \<Rightarrow> nat \<Rightarrow> 'a list tensor" where
  "slice0 x i = \<lparr>shape = 1 # tl (shape x), data = [data x ! i]\<rparr>"

definition time_slices :: "'a list tensor \<Rightarrow> 'a list tensor list" where
  "time_slices x = map (slice0 x) [0..<size0 x]"

fun decode_calls ::
  "reducer \<Rightarrow> fval tensor4 list \<Rightarrow> inc_state option \<Rightarrow>
     (error + tensor_out) list \<times> inc_state option" where
  "decode_calls r [] st = ([], st)"
| "decode_calls r (x # xs) st =
     (case forward r x None st of
        (y, st') \<Rightarrow> (case decode_calls r xs st' of (ys, st'') \<Rightarrow> (y # ys, st'')))"

section \<open>Finite inputs\<close>

text \<open>
  The real number a finite element stands for, and the tensors all of whose elements are
  finite.
\<close>

fun rval :: "fval \<Rightarrow> real" where
  "rval (Fin a) = a"
| "rval _ = 0"

definition all_finite2 :: "fval tensor2 \<Rightarrow> bool" where
  "all_finite2 w = list_all (list_all is_finite) (data w)"

definition all_finite4 :: "fval tensor4 \<Rightarrow> bool" where
  "all_finite4 x = list_all (list_all (list_all (list_all is_finite))) (data x)"

text \<open>
  A mask of a source branch that leaves every batch row at least one source position:
  no mask at all, or a byte mask of shape \<open>[B, S]\<close> with an unmasked position in each row.
\<close>

definition rows_unmasked :: "nat \<Rightarrow> nat \<Rightarrow> mask option \<Rightarrow> bool" where
  "rows_unmasked B S msk =
     (case msk of
        None \<Rightarrow> True
      | Some (ByteMask m) \<Rightarrow>
          is_tensor2 B S m \<and> list_all (\<lambda>b. list_ex (\<lambda>s. \<not> at2 m b s) [0..<S]) [0..<B]
      | Some (FloatMask m) \<Rightarrow> False)"

section \<open>Basic facts\<close>

lemma dims4_shape [simp]: "shape x = [a, b, c, d] \<Longrightarrow> dims4 x = Some (a, b, c, d)"
  by (simp add: dims4_def)

lemma dims2_shape [simp]: "shape x = [a, b] \<Longrightarrow> dims2 x = Some (a, b)"
  by (simp add: dims2_def)

section \<open>Tabulated tensors\<close>

lemma tab2_nth: "i < n0 \<Longrightarrow> j < n1 \<Longrightarrow> tab2 n0 n1 f ! i ! j = f i j"
  by (simp add: tab2_def)

lemma tab3_nth: "i < n0 \<Longrightarrow> j < n1 \<Longrightarrow> k < n2 \<Longrightarrow> tab3 n0 n1 n2 f ! i ! j ! k = f i j k"
  by (simp add: tab3_def tab2_nth)

lemma tab4_nth:
  "i < n0 \<Longrightarrow> j < n1 \<Longrightarrow> k < n2 \<Longrightarrow> l < n3 \<Longrightarrow> tab4 n0 n1 n2 n3 f ! i ! j ! k ! l = f i j k l"
  by (simp add: tab4_def tab3_nth)

lemma rect2_tab2: "rect2 n0 n1 (tab2 n0 n1 f)"
  by (simp add: rect2_def tab2_def list_all_iff)

lemma rect3_tab3: "rect3 n0 n1 n2 (tab3 n0 n1 n2 f)"
  by (simp add: rect3_def tab3_def list_all_iff rect2_tab2)

lemma rect4_tab4: "rect4 n0 n1 n2 n3 (tab4 n0 n1 n2 n3 f)"
  by (simp add: rect4_def tab4_def list_all_iff rect3_tab3)

lemma tab2_cong:
  assumes "\<And>i j. i < n0 \<Longrightarrow> j < n1 \<Longrightarrow> f i j = g i j"
  shows "tab2 n0 n1 f = tab2 n0 n1 g"
  unfolding tab2_def
proof (rule map_cong [OF refl])
  fix i assume "i \<in> set [0..<n0]"
  then have i: "i < n0" by simp
  show "map (\<lambda>j. f i j) [0..<n1] = map (\<lambda>j. g i j) [0..<n1]"
  proof (rule map_cong [OF refl])
    fix j assume "j \<in> set [0..<n1]"
    then have "j < n1" by simp
    with i show "f i j = g i j" by (rule assms)
  qed
qed

lemma tab3_cong:
  assumes "\<And>i j k. i < n0 \<Longrightarrow> j < n1 \<Longrightarrow> k < n2 \<Longrightarrow> f i j k = g i j k"
  shows "tab3 n0 n1 n2 f = tab3 n0 n1 n2 g"
  unfolding tab3_def
proof (rule map_cong [OF refl])
  fix i assume "i \<in> set [0..<n0]"
  then have i: "i < n0" by simp
  show "tab2 n1 n2 (f i) = tab2 n1 n2 (g i)"
    by (rule tab2_cong) (rule assms [OF i])
qed

lemma tab4_cong:
  assumes "\<And>i j k l. i < n0 \<Longrightarrow> j < n1 \<Longrightarrow> k < n2 \<Longrightarrow> l < n3 \<Longrightarrow> f i j k l = g i j k l"
  shows "tab4 n0 n1 n2 n3 f = tab4 n0 n1 n2 n3 g"
  unfolding tab4_def
proof (rule map_cong [OF refl])
  fix i assume "i \<in> set [0..<n0]"
  then have i: "i < n0" by simp
  show "tab3 n1 n2 n3 (f i) = tab3 n1 n2 n3 (g i)"
    by (rule tab3_cong) (rule assms [OF i])
qed

lemma rect2_tab2_eq:
  assumes "rect2 n0 n1 d"
  shows "d = tab2 n0 n1 (\<lambda>i j. d ! i ! j)"
proof (rule nth_equalityI)
  show "length d = length (tab2 n0 n1 (\<lambda>i j. d ! i ! j))"
    using assms by (simp add: rect2_def tab2_def)
  fix i assume i: "i < length d"
  with assms have "length (d ! i) = n1" and "i < n0"
    by (simp_all add: rect2_def list_all_length)
  then show "d ! i = tab2 n0 n1 (\<lambda>i j. d ! i ! j) ! i"
    using map_nth [of "d ! i"] by (simp add: tab2_def)
qed

lemma rect3_tab3_eq:
  assumes "rect3 n0 n1 n2 d"
  shows "d = tab3 n0 n1 n2 (\<lambda>i j k. d ! i ! j ! k)"
proof (rule nth_equalityI)
  show "length d = length (tab3 n0 n1 n2 (\<lambda>i j k. d ! i ! j ! k))"
    using assms by (simp add: rect3_def tab3_def)
  fix i assume i: "i < length d"
  with assms have r: "rect2 n1 n2 (d ! i)" and "i < n0"
    by (simp_all add: rect3_def list_all_length)
  then have e: "tab3 n0 n1 n2 (\<lambda>i j k. d ! i ! j ! k) ! i = tab2 n1 n2 (\<lambda>j k. d ! i ! j ! k)"
    by (simp add: tab3_def)
  show "d ! i = tab3 n0 n1 n2 (\<lambda>i j k. d ! i ! j ! k) ! i"
    unfolding e by (rule rect2_tab2_eq [OF r])
qed

lemma rect4_tab4_eq:
  assumes "rect4 n0 n1 n2 n3 d"
  shows "d = tab4 n0 n1 n2 n3 (\<lambda>i j k l. d ! i ! j ! k ! l)"
proof (rule nth_equalityI)
  show "length d = length (tab4 n0 n1 n2 n3 (\<lambda>i j k l. d ! i ! j ! k ! l))"
    using assms by (simp add: rect4_def tab4_def)
  fix i assume i: "i < length d"
  with assms have r: "rect3 n1 n2 n3 (d ! i)" and "i < n0"
    by (simp_all add: rect4_def list_all_length)
  then have e: "tab4 n0 n1 n2 n3 (\<lambda>i j k l. d ! i ! j ! k ! l) ! i
      = tab3 n1 n2 n3 (\<lambda>j k l. d ! i ! j ! k ! l)"
    by (simp add: tab4_def)
  show "d ! i = tab4 n0 n1 n2 n3 (\<lambda>i j k l. d ! i ! j ! k ! l) ! i"
    unfolding e by (rule rect3_tab3_eq [OF r])
qed

section \<open>Columns\<close>

lemma maxl_Max: "vs \<noteq> [] \<Longrightarrow> maxl vs = Max (set vs)"
  by (cases vs) (simp_all add: maxl_def Max.set_eq_fold [symmetric])

lemma NInf_least [simp]: "NInf \<le> (a :: fval)"
  by (simp add: less_eq_fval_def)

lemma bidx_lt: "i < n \<Longrightarrow> bidx n i = i"
  by (auto simp add: bidx_def)

lemma bidx_one [simp]: "bidx 1 i = 0"
  by (simp add: bidx_def)

section \<open>Construction\<close>

text \<open>
  Claim C5. Constructing a Reducer with a method name that is not registered fails with
  a configuration error (the \<open>KeyError\<close> of the registry lookup) in \<open>__init__\<close> itself,
  for every such name, every reduce-axis flag and every further argument; no Reducer
  object comes out of such a construction, so no failure is left for the first call.
\<close>

theorem unregistered_method_fails_at_construction:
  "VALID_REDUCER meth = None \<Longrightarrow>
     Reducer_init ident meth rsrc args sample = Inl KeyError
     \<and> (\<forall>r. Reducer_init ident meth rsrc args sample \<noteq> Inr r)"
  by (simp add: Reducer_init_def)

theorem unregistered_method_fails_at_construction_witness:
  "VALID_REDUCER ''mean'' = None
   \<and> Reducer_init 0 ''mean'' True None (\<lambda>i j. 0) = Inl KeyError
   \<and> Reducer_init 0 ''mean'' False None (\<lambda>i j. 0) = Inl KeyError"
proof -
  have h: "VALID_REDUCER ''mean'' = None"
    by (simp add: VALID_REDUCER_def)
  show ?thesis
    using h unregistered_method_fails_at_construction [OF h, of 0 True None "\<lambda>i j. 0"]
      unregistered_method_fails_at_construction [OF h, of 0 False None "\<lambda>i j. 0"]
    by simp
qed

text \<open>
  Claim C6. The target branch of the attention-weighted strategy raises the
  unsupported-operation error (\<open>NotImplementedError\<close>) on every call: whatever the input
  tensor, the mask and the incremental state are, a Reducer built with method \<open>attn\<close>
  for the target axis fails, and leaves the incremental state as it was.
\<close>

theorem attn_target_always_unsupported:
  "Reducer_init ident ''attn'' False args sample = Inr r \<Longrightarrow>
     forward r x msk incremental_state = (Inl NotImplementedError, incremental_state)"
  by (auto simp add: Reducer_init_def VALID_REDUCER_def forward_def attn_reduce_tgt_def Let_def
      split: option.splits if_splits)

theorem attn_target_always_unsupported_witness:
  "Reducer_init 7 ''attn'' False (Some \<lparr>decoder_model_dim = 1\<rparr>) (\<lambda>i j. 0)
     = Inr \<lparr>instance_id = 7, method_name = ''attn'', reduce_src = False,
            weights = Some \<lparr>shape = [1, 1], data = [[Fin 0]]\<rparr>,
            customize_forward = AttnTgt\<rparr>
   \<and> forward \<lparr>instance_id = 7, method_name = ''attn'', reduce_src = False,
               weights = Some \<lparr>shape = [1, 1], data = [[Fin 0]]\<rparr>,
               customize_forward = AttnTgt\<rparr>
        \<lparr>shape = [1, 1, 1, 1], data = [[[[Fin 1]]]]\<rparr> None None
     = (Inl NotImplementedError, None)"
proof -
  have h: "Reducer_init 7 ''attn'' False (Some \<lparr>decoder_model_dim = 1\<rparr>) (\<lambda>i j. 0)
     = Inr \<lparr>instance_id = 7, method_name = ''attn'', reduce_src = False,
            weights = Some \<lparr>shape = [1, 1], data = [[Fin 0]]\<rparr>,
            customize_forward = AttnTgt\<rparr>"
    by (simp add: Reducer_init_def VALID_REDUCER_def tab2_def)
  show ?thesis
    using h attn_target_always_unsupported [OF h] by simp
qed

section \<open>The buffer of a session\<close>

lemma get_set_input_buffer:
  "get_input_buffer r (set_input_buffer r (Some st) b) = b"
  by (simp add: get_input_buffer_def set_input_buffer_def get_incremental_state_def
      set_incremental_state_def)

lemma buffer_of_set:
  "buffer_of r (set_input_buffer r (Some st) b) = map_of b ''prev_repr''"
  by (simp add: buffer_of_def get_set_input_buffer)

lemma cat0_tensor4:
  "is_tensor4 T' S B C buf \<Longrightarrow> is_tensor4 T S B C x \<Longrightarrow>
     cat0 buf x = Inr \<lparr>shape = [T' + T, S, B, C], data = data buf @ data x\<rparr>"
  by (simp add: cat0_def is_tensor4_def)

lemma is_tensor4_cat:
  "is_tensor4 T' S B C buf \<Longrightarrow> is_tensor4 T S B C x \<Longrightarrow>
     is_tensor4 (T' + T) S B C \<lparr>shape = [T' + T, S, B, C], data = data buf @ data x\<rparr>"
  by (simp add: is_tensor4_def rect4_def)

lemma prepare_repr_existing:
  assumes "buffer_of r (Some st) = Some buf" "is_tensor4 T' S B C buf" "is_tensor4 T S B C x"
  shows "\<exists>st'. prepare_repr r x (Some st)
            = (Inr \<lparr>shape = [T' + T, S, B, C], data = data buf @ data x\<rparr>, Some st')
          \<and> buffer_of r (Some st')
            = Some \<lparr>shape = [T' + T, S, B, C], data = data buf @ data x\<rparr>"
  using assms cat0_tensor4 [OF assms(2,3)]
  by (simp add: prepare_repr_def buffer_of_def Let_def set_input_buffer_def
      set_incremental_state_def get_input_buffer_def get_incremental_state_def update_conv')

lemma prepare_repr_fresh:
  assumes "buffer_of r (Some st) = None"
  shows "\<exists>st'. prepare_repr r x (Some st) = (Inr x, Some st') \<and> buffer_of r (Some st') = Some x"
  using assms
  by (simp add: prepare_repr_def buffer_of_def Let_def set_input_buffer_def
      set_incremental_state_def get_input_buffer_def get_incremental_state_def update_conv')

lemma is_tensor4_eta:
  "is_tensor4 k S B C buf \<Longrightarrow> buf = \<lparr>shape = [k, S, B, C], data = data buf\<rparr>"
  by (simp add: is_tensor4_def)

lemma prepare_calls_existing:
  "list_all (is_tensor4 1 S B C) xs \<Longrightarrow> buffer_of r (Some st) = Some buf \<Longrightarrow>
   is_tensor4 k S B C buf \<Longrightarrow>
     list_all (\<lambda>y. \<not> isl y) (fst (prepare_calls r xs (Some st)))
     \<and> buffer_of r (snd (prepare_calls r xs (Some st)))
       = Some \<lparr>shape = [k + length xs, S, B, C], data = data buf @ concat (map data xs)\<rparr>"
proof (induction xs arbitrary: st buf k)
  case Nil
  then show ?case using is_tensor4_eta [of k S B C buf] by simp
next
  case (Cons x xs)
  from Cons.prems have x: "is_tensor4 1 S B C x" and xs: "list_all (is_tensor4 1 S B C) xs"
    by simp_all
  let ?b = "\<lparr>shape = [k + 1, S, B, C], data = data buf @ data x\<rparr>"
  from prepare_repr_existing [OF Cons.prems(2) Cons.prems(3) x]
  obtain st' where p: "prepare_repr r x (Some st) = (Inr ?b, Some st')"
    and b: "buffer_of r (Some st') = Some ?b"
    by blast
  have t: "is_tensor4 (k + 1) S B C ?b"
    using is_tensor4_cat [OF Cons.prems(3) x] .
  from Cons.IH [OF xs b t] p show ?case
    by (simp add: split_beta)
qed

lemma prepare_calls_fresh:
  assumes "list_all (is_tensor4 1 S B C) xs" "xs \<noteq> []" "buffer_of r (Some st) = None"
  shows "list_all (\<lambda>y. \<not> isl y) (fst (prepare_calls r xs (Some st)))
     \<and> buffer_of r (snd (prepare_calls r xs (Some st)))
       = Some \<lparr>shape = [length xs, S, B, C], data = concat (map data xs)\<rparr>"
proof (cases xs)
  case Nil
  with assms show ?thesis by simp
next
  case (Cons x ys)
  from assms Cons have x: "is_tensor4 1 S B C x" and ys: "list_all (is_tensor4 1 S B C) ys"
    by simp_all
  from prepare_repr_fresh [OF assms(3)]
  obtain st' where p: "prepare_repr r x (Some st) = (Inr x, Some st')"
    and b: "buffer_of r (Some st') = Some x"
    by blast
  from prepare_calls_existing [OF ys b x] p Cons show ?thesis
    by (simp add: split_beta)
qed

text \<open>
  Claim C3. A call of \<open>_prepare_repr\<close> with a container (not \<open>None\<close>): when the
  container holds a buffer for this Reducer, the call returns the buffer followed by \<open>x\<close>
  along the time axis and stores that concatenation as the new buffer; when it holds none,
  the call returns \<open>x\<close> as it is and stores \<open>x\<close> as the buffer. So after \<open>n\<close> calls in a row,
  each with a slice of shape \<open>[1, S, B, C]\<close>, on a container that held no buffer, every call
  has returned and the buffer is the concatenation of the \<open>n\<close> slices in call order, of time
  length \<open>n\<close>. The tensors are of one shape but for the time axis, as \<open>torch.cat\<close> wants
  them.
\<close>

theorem prepare_repr_extends_buffer:
  assumes "is_tensor4 T S B C x"
  shows "(buffer_of r (Some st) = Some buf \<and> is_tensor4 T' S B C buf \<longrightarrow>
            fst (prepare_repr r x (Some st))
              = Inr \<lparr>shape = [T' + T, S, B, C], data = data buf @ data x\<rparr>
            \<and> buffer_of r (snd (prepare_repr r x (Some st)))
              = Some \<lparr>shape = [T' + T, S, B, C], data = data buf @ data x\<rparr>)
       \<and> (buffer_of r (Some st) = None \<longrightarrow>
            fst (prepare_repr r x (Some st)) = Inr x
            \<and> buffer_of r (snd (prepare_repr r x (Some st))) = Some x)
       \<and> (buffer_of r (Some st) = None \<and> xs \<noteq> [] \<and> list_all (is_tensor4 1 S B C) xs \<longrightarrow>
            list_all (\<lambda>y. \<not> isl y) (fst (prepare_calls r xs (Some st)))
            \<and> buffer_of r (snd (prepare_calls r xs (Some st)))
              = Some \<lparr>shape = [length xs, S, B, C], data = concat (map data xs)\<rparr>)"
proof (intro conjI impI)
  assume a: "buffer_of r (Some st) = Some buf \<and> is_tensor4 T' S B C buf"
  from prepare_repr_existing [OF conjunct1 [OF a] conjunct2 [OF a] assms]
  show "fst (prepare_repr r x (Some st))
      = Inr \<lparr>shape = [T' + T, S, B, C], data = data buf @ data x\<rparr>"
    and "buffer_of r (snd (prepare_repr r x (Some st)))
      = Some \<lparr>shape = [T' + T, S, B, C], data = data buf @ data x\<rparr>"
    by auto
next
  assume a: "buffer_of r (Some st) = None"
  from prepare_repr_fresh [OF a, of x]
  show "fst (prepare_repr r x (Some st)) = Inr x"
    and "buffer_of r (snd (prepare_repr r x (Some st))) = Some x"
    by auto
next
  assume a: "buffer_of r (Some st) = None \<and> xs \<noteq> [] \<and> list_all (is_tensor4 1 S B C) xs"
  then have "list_all (is_tensor4 1 S B C) xs" "xs \<noteq> []" "buffer_of r (Some st) = None"
    by simp_all
  from prepare_calls_fresh [OF this]
  show "list_all (\<lambda>y. \<not> isl y) (fst (prepare_calls r xs (Some st)))"
    and "buffer_of r (snd (prepare_calls r xs (Some st)))
      = Some \<lparr>shape = [length xs, S, B, C], data = concat (map data xs)\<rparr>"
    by auto
qed

theorem prepare_repr_extends_buffer_witness:
  "is_tensor4 1 1 1 1 \<lparr>shape = [1, 1, 1, 1], data = [[[[Fin 2]]]]\<rparr>
   \<and> fst (prepare_repr
        \<lparr>instance_id = 0, method_name = ''max'', reduce_src = False, weights = None,
         customize_forward = MaxTgt\<rparr>
        \<lparr>shape = [1, 1, 1, 1], data = [[[[Fin 2]]]]\<rparr>
        (Some [(0, ''repr_state'') \<mapsto>
           [(''prev_repr'', \<lparr>shape = [1, 1, 1, 1], data = [[[[Fin 1]]]]\<rparr>)]]))
     = Inr \<lparr>shape = [2, 1, 1, 1], data = [[[[Fin 1]]], [[[Fin 2]]]]\<rparr>
   \<and> buffer_of
        \<lparr>instance_id = 0, method_name = ''max'', reduce_src = False, weights = None,
         customize_forward = MaxTgt\<rparr>
        (snd (prepare_repr
          \<lparr>instance_id = 0, method_name = ''max'', reduce_src = False, weights = None,
           customize_forward = MaxTgt\<rparr>
          \<lparr>shape = [1, 1, 1, 1], data = [[[[Fin 2]]]]\<rparr>
          (Some [(0, ''repr_state'') \<mapsto>
             [(''prev_repr'', \<lparr>shape = [1, 1, 1, 1], data = [[[[Fin 1]]]]\<rparr>)]])))
     = Some \<lparr>shape = [2, 1, 1, 1], data = [[[[Fin 1]]], [[[Fin 2]]]]\<rparr>
   \<and> fst (prepare_repr
        \<lparr>instance_id = 0, method_name = ''max'', reduce_src = False, weights = None,
         customize_forward = MaxTgt\<rparr>
        \<lparr>shape = [1, 1, 1, 1], data = [[[[Fin 2]]]]\<rparr> (Some Map.empty))
     = Inr \<lparr>shape = [1, 1, 1, 1], data = [[[[Fin 2]]]]\<rparr>
   \<and> buffer_of
        \<lparr>instance_id = 0, method_name = ''max'', reduce_src = False, weights = None,
         customize_forward = MaxTgt\<rparr>
        (snd (prepare_calls
          \<lparr>instance_id = 0, method_name = ''max'', reduce_src = False, weights = None,
           customize_forward = MaxTgt\<rparr>
          [\<lparr>shape = [1, 1, 1, 1], data = [[[[Fin 1]]]]\<rparr>,
           \<lparr>shape = [1, 1, 1, 1], data = [[[[Fin 2]]]]\<rparr>,
           \<lparr>shape = [1, 1, 1, 1], data = [[[[Fin 3]]]]\<rparr>]
          (Some Map.empty)))
     = Some \<lparr>shape = [3, 1, 1, 1], data = [[[[Fin 1]]], [[[Fin 2]]], [[[Fin 3]]]]\<rparr>"
proof -
  let ?r = "\<lparr>instance_id = 0, method_name = ''max'', reduce_src = False, weights = None,
         customize_forward = MaxTgt\<rparr>"
  let ?x1 = "\<lparr>shape = [1, 1, 1, 1], data = [[[[Fin 1]]]]\<rparr>"
  let ?x2 = "\<lparr>shape = [1, 1, 1, 1], data = [[[[Fin 2]]]]\<rparr>"
  let ?x3 = "\<lparr>shape = [1, 1, 1, 1], data = [[[[Fin 3]]]]\<rparr>"
  let ?st = "[(0::nat, ''repr_state'') \<mapsto> [(''prev_repr'', ?x1)]]"
  have t: "is_tensor4 1 1 1 1 ?x1" "is_tensor4 1 1 1 1 ?x2" "is_tensor4 1 1 1 1 ?x3"
    by (simp_all add: is_tensor4_def rect4_def rect3_def rect2_def)
  have b1: "buffer_of ?r (Some ?st) = Some ?x1"
    by (simp add: buffer_of_def get_input_buffer_def get_incremental_state_def)
  have b0: "buffer_of ?r (Some Map.empty) = None"
    by (simp add: buffer_of_def get_input_buffer_def get_incremental_state_def)
  show ?thesis
    using t b1 b0
      prepare_repr_extends_buffer [OF t(2), where r = ?r and st = ?st and buf = ?x1 and T' = 1]
      prepare_repr_extends_buffer [OF t(2), where r = ?r and st = Map.empty
        and xs = "[?x1, ?x2, ?x3]"]
    by simp
qed

section \<open>The target branches\<close>

text \<open>
  Claim C9. In the target branches of the max and softmax strategies only the presence of
  the mask is read, never its content: for every input, every incremental state and any
  two masks that are not \<open>None\<close>, the two calls return the same output and leave the same
  incremental state.
\<close>

theorem target_mask_content_ignored:
  assumes "Reducer_init ident meth False args sample = Inr r"
    and "meth = ''max'' \<or> meth = ''softmax''"
  shows "forward r x (Some m1) incremental_state = forward r x (Some m2) incremental_state"
  using assms
  by (auto simp add: Reducer_init_def VALID_REDUCER_def forward_def max_reduce_tgt_def
      softmax_reduce_tgt_def split: prod.splits sum.splits)

theorem target_mask_content_ignored_witness:
  "Reducer_init 0 ''softmax'' False None (\<lambda>i j. 0)
     = Inr \<lparr>instance_id = 0, method_name = ''softmax'', reduce_src = False, weights = None,
            customize_forward = SoftmaxTgt\<rparr>
   \<and> forward \<lparr>instance_id = 0, method_name = ''softmax'', reduce_src = False, weights = None,
            customize_forward = SoftmaxTgt\<rparr>
        \<lparr>shape = [1, 1, 1, 1], data = [[[[Fin 2]]]]\<rparr>
        (Some (FloatMask \<lparr>shape = [1, 1], data = [[NInf]]\<rparr>)) (Some Map.empty)
     = forward \<lparr>instance_id = 0, method_name = ''softmax'', reduce_src = False, weights = None,
            customize_forward = SoftmaxTgt\<rparr>
        \<lparr>shape = [1, 1, 1, 1], data = [[[[Fin 2]]]]\<rparr>
        (Some (ByteMask \<lparr>shape = [1, 1], data = [[True]]\<rparr>)) (Some Map.empty)"
proof -
  have h: "Reducer_init 0 ''softmax'' False None (\<lambda>i j. 0)
     = Inr \<lparr>instance_id = 0, method_name = ''softmax'', reduce_src = False, weights = None,
            customize_forward = SoftmaxTgt\<rparr>"
    by (simp add: Reducer_init_def VALID_REDUCER_def)
  have m: "''softmax'' = ''max'' \<or> ''softmax'' = ''softmax''"
    by simp
  show ?thesis
    using h target_mask_content_ignored [OF h m] by simp
qed

text \<open>
  Claim C10. Called with \<open>incremental_state = None\<close>, the target branch of the max or the
  softmax strategy has no effect on any state: \<open>_prepare_repr\<close> returns \<open>x\<close> unchanged, no
  container comes into being (the state after the call is still \<open>None\<close>), and the result
  is computed from \<open>x\<close> and the presence of the mask alone, whatever Reducer makes the
  call.
\<close>

theorem target_without_session_is_pure:
  "prepare_repr r x None = (Inr x, None)
   \<and> max_reduce_tgt r x msk None
       = (if msk = None then map_sum id T3 (max_dim0 x) else map_sum id T4 (max_train x), None)
   \<and> snd (softmax_reduce_tgt r x msk None) = None
   \<and> softmax_reduce_tgt r x msk None = softmax_reduce_tgt r' x msk None
   \<and> (msk \<noteq> None \<longrightarrow>
        softmax_reduce_tgt r x msk None = (map_sum id T4 (softmax_train x), None))"
  by (auto simp add: prepare_repr_def max_reduce_tgt_def softmax_reduce_tgt_def Let_def
      split: sum.splits)

theorem target_without_session_is_pure_witness:
  "prepare_repr
     \<lparr>instance_id = 0, method_name = ''softmax'', reduce_src = False, weights = None,
      customize_forward = SoftmaxTgt\<rparr>
     \<lparr>shape = [1, 1, 1, 1], data = [[[[Fin 2]]]]\<rparr> None
     = (Inr \<lparr>shape = [1, 1, 1, 1], data = [[[[Fin 2]]]]\<rparr>, None)
   \<and> snd (softmax_reduce_tgt
        \<lparr>instance_id = 0, method_name = ''softmax'', reduce_src = False, weights = None,
         customize_forward = SoftmaxTgt\<rparr>
        \<lparr>shape = [1, 1, 1, 1], data = [[[[Fin 2]]]]\<rparr>
        (Some (FloatMask \<lparr>shape = [1, 1], data = [[Fin 0]]\<rparr>)) None) = None
   \<and> softmax_reduce_tgt
        \<lparr>instance_id = 0, method_name = ''softmax'', reduce_src = False, weights = None,
         customize_forward = SoftmaxTgt\<rparr>
        \<lparr>shape = [1, 1, 1, 1], data = [[[[Fin 2]]]]\<rparr>
        (Some (FloatMask \<lparr>shape = [1, 1], data = [[Fin 0]]\<rparr>)) None
     = (map_sum id T4 (softmax_train \<lparr>shape = [1, 1, 1, 1], data = [[[[Fin 2]]]]\<rparr>), None)"
  using target_without_session_is_pure
    [of "\<lparr>instance_id = 0, method_name = ''softmax'', reduce_src = False, weights = None,
         customize_forward = SoftmaxTgt\<rparr>"
        "\<lparr>shape = [1, 1, 1, 1], data = [[[[Fin 2]]]]\<rparr>"
        "Some (FloatMask \<lparr>shape = [1, 1], data = [[Fin 0]]\<rparr>)"]
  by simp

section \<open>Reordering\<close>

text \<open>
  Claim C4 says that \<open>reorder_incremental_state\<close> leaves a container that holds no buffer
  for this Reducer unchanged. The guard \<open>if input_buffer is not None\<close> never fails,
  because \<open>_get_input_buffer\<close> turns a missing entry into \<open>{}\<close>: on the empty container
  the call writes an empty saved state under the key of the Reducer, and the container is
  no longer the one it was.
\<close>

theorem reorder_without_buffer_writes_entry:
  "reorder_incremental_state
     \<lparr>instance_id = 0, method_name = ''max'', reduce_src = False, weights = None,
      customize_forward = MaxTgt\<rparr> (Some Map.empty) [0]
   = (Inr (), Some [(0, ''repr_state'') \<mapsto> []])
   \<and> [(0::nat, ''repr_state'') \<mapsto> ([] :: saved_state)] \<noteq> Map.empty"
  by (simp add: reorder_incremental_state_def get_input_buffer_def get_incremental_state_def
      set_input_buffer_def set_incremental_state_def)

text \<open>The same for every container without an entry for the Reducer; no buffer is allocated.\<close>

lemma reorder_without_buffer_general:
  "buffer_of r (Some st) = None \<Longrightarrow> st (instance_id r, ''repr_state'') = None \<Longrightarrow>
     reorder_incremental_state r (Some st) new_order
       = (Inr (), Some (st((instance_id r, ''repr_state'') \<mapsto> [])))
     \<and> buffer_of r (Some (st((instance_id r, ''repr_state'') \<mapsto> []))) = None"
  by (simp add: reorder_incremental_state_def get_input_buffer_def get_incremental_state_def
      set_input_buffer_def set_incremental_state_def buffer_of_def)

section \<open>The source branch of max\<close>

lemma bidx_Suc0 [simp]: "bidx (Suc 0) i = 0"
  by (simp add: bidx_def)

lemma mask_view_at:
  assumes "is_tensor2 B S m" "s < S" "b < B"
  shows "at4 (mask_view m) 0 s b 0 = at2 m b s"
  using assms by (simp add: mask_view_def is_tensor2_def at4_def tab4_nth)

lemma fill_masked_byte:
  assumes "is_tensor4 T S B C x" "is_tensor2 B S m"
  shows "fill_masked x (Some (ByteMask m))
    = Inr \<lparr>shape = [T, S, B, C],
           data = tab4 T S B C (\<lambda>t s b c. if at2 m b s then NInf else at4 x t s b c)\<rparr>"
proof -
  have sh: "shape (mask_view m) = [1, S, B, 1]"
    using assms(2) by (simp add: mask_view_def is_tensor2_def)
  have "tab4 T S B C
          (\<lambda>t s b c. if at4 (mask_view m) (bidx 1 t) (bidx S s) (bidx B b) (bidx 1 c)
                      then NInf else at4 x t s b c)
      = tab4 T S B C (\<lambda>t s b c. if at2 m b s then NInf else at4 x t s b c)"
    by (rule tab4_cong) (simp add: bidx_lt mask_view_at [OF assms(2)])
  then show ?thesis
    using assms(1) sh by (simp add: fill_masked_def masked_fill_def is_tensor4_def fits_def)
qed

lemma max_dim1_tab:
  assumes "0 < S"
  shows "max_dim1 \<lparr>shape = [T, S, B, C], data = tab4 T S B C f\<rparr>
     = Inr \<lparr>shape = [T, B, C],
            data = tab3 T B C (\<lambda>t b c. maxl (map (\<lambda>s. f t s b c) [0..<S]))\<rparr>"
proof -
  have c: "map (\<lambda>s. at4 \<lparr>shape = [T, S, B, C], data = tab4 T S B C f\<rparr> t s b c) [0..<S]
      = map (\<lambda>s. f t s b c) [0..<S]" if "t < T" "b < B" "c < C" for t b c
    by (rule map_cong [OF refl]) (use that in \<open>simp add: at4_def tab4_nth\<close>)
  have "tab3 T B C (\<lambda>t b c. maxl (map (\<lambda>s. at4 \<lparr>shape = [T, S, B, C],
            data = tab4 T S B C f\<rparr> t s b c) [0..<S]))
      = tab3 T B C (\<lambda>t b c. maxl (map (\<lambda>s. f t s b c) [0..<S]))"
    by (rule tab3_cong) (simp only: c)
  with assms show ?thesis
    by (simp add: max_dim1_def)
qed

lemma masked_Max:
  assumes "0 < S"
  shows "maxl (map (\<lambda>s. if p s then NInf else v s) [0..<S])
    = (if \<exists>s<S. \<not> p s then Max {v s | s. s < S \<and> \<not> p s} else NInf)"
proof -
  let ?I = "(\<lambda>s. if p s then NInf else v s) ` {0..<S}"
  let ?A = "{v s | s. s < S \<and> \<not> p s}"
  have m: "maxl (map (\<lambda>s. if p s then NInf else v s) [0..<S]) = Max ?I"
    using assms by (simp add: maxl_Max)
  have fA: "finite ?A" by simp
  show ?thesis
  proof (cases "\<exists>s<S. \<not> p s")
    case True
    then have neA: "?A \<noteq> {}" by blast
    have "Max ?I = Max ?A"
    proof (rule Max_eqI)
      show "finite ?I" by simp
      fix y assume "y \<in> ?I"
      then obtain s where s: "s < S" "y = (if p s then NInf else v s)" by auto
      show "y \<le> Max ?A"
      proof (cases "p s")
        case True
        with s show ?thesis by simp
      next
        case False
        with s have "y \<in> ?A" by auto
        then show ?thesis using fA by (rule Max_ge [rotated])
      qed
    next
      from Max_in [OF fA neA] obtain s where "s < S" "\<not> p s" "Max ?A = v s" by auto
      then show "Max ?A \<in> ?I" by force
    qed
    with m have "maxl (map (\<lambda>s. if p s then NInf else v s) [0..<S]) = Max ?A"
      by (simp only:)
    with True show ?thesis by simp
  next
    case False
    then have I: "?I = {NInf}" using assms by auto
    from m have "maxl (map (\<lambda>s. if p s then NInf else v s) [0..<S]) = NInf"
      by (simp only: I Max_singleton)
    with False show ?thesis by auto
  qed
qed

text \<open>
  Claim C7. The source branch of the max strategy, called with a mask: on an input of shape
  \<open>[T, S, B, C]\<close> with at least one source position and a mask of shape \<open>[B, S]\<close>, the call
  returns a tensor of shape \<open>[T, B, C]\<close> whose element at every index \<open>(t, b, c)\<close> is the
  maximum of \<open>x[t, s, b, c]\<close> over exactly the source positions \<open>s\<close> that the mask leaves
  unmasked in batch row \<open>b\<close>; when every source position of the row is masked, the element
  is negative infinity. The maximum is the one \<open>torch.max\<close> takes: a NaN among the
  unmasked elements is the result.
\<close>

theorem max_source_masked_maximum:
  assumes "is_tensor4 T S B C x" "is_tensor2 B S m" "0 < S"
  shows "\<exists>y. max_reduce_src x (Some (ByteMask m)) incremental_state
              = (Inr (T3 y), incremental_state)
           \<and> is_tensor3 T B C y
           \<and> (\<forall>t<T. \<forall>b<B. \<forall>c<C.
                at3 y t b c
                  = (if \<exists>s<S. \<not> at2 m b s
                     then Max {at4 x t s b c | s. s < S \<and> \<not> at2 m b s}
                     else NInf))"
proof -
  let ?y = "\<lparr>shape = [T, B, C],
      data = tab3 T B C (\<lambda>t b c. maxl (map (\<lambda>s. if at2 m b s then NInf else at4 x t s b c)
        [0..<S]))\<rparr>"
  have r: "max_reduce_src x (Some (ByteMask m)) incremental_state
      = (Inr (T3 ?y), incremental_state)"
    by (simp add: max_reduce_src_def fill_masked_byte [OF assms(1,2)] max_dim1_tab [OF assms(3)])
  have t: "is_tensor3 T B C ?y"
    by (simp add: is_tensor3_def rect3_tab3)
  have v: "\<forall>t<T. \<forall>b<B. \<forall>c<C.
      at3 ?y t b c
        = (if \<exists>s<S. \<not> at2 m b s
           then Max {at4 x t s b c | s. s < S \<and> \<not> at2 m b s}
           else NInf)"
    by (simp add: at3_def tab3_nth masked_Max [OF assms(3)])
  from r t v show ?thesis by blast
qed

theorem max_source_masked_maximum_witness:
  "is_tensor4 1 2 1 1 \<lparr>shape = [1, 2, 1, 1], data = [[[[Fin 1]], [[Fin 5]]]]\<rparr>
   \<and> is_tensor2 1 2 \<lparr>shape = [1, 2], data = [[False, True]]\<rparr>
   \<and> (0::nat) < 2
   \<and> max_reduce_src \<lparr>shape = [1, 2, 1, 1], data = [[[[Fin 1]], [[Fin 5]]]]\<rparr>
        (Some (ByteMask \<lparr>shape = [1, 2], data = [[False, True]]\<rparr>)) None
     = (Inr (T3 \<lparr>shape = [1, 1, 1], data = [[[Fin 1]]]\<rparr>), None)"
proof -
  let ?x = "\<lparr>shape = [1, 2, 1, 1], data = [[[[Fin 1]], [[Fin 5]]]]\<rparr>"
  let ?m = "\<lparr>shape = [1, 2], data = [[False, True]]\<rparr>"
  have hx: "is_tensor4 1 2 1 1 ?x"
    by (simp add: is_tensor4_def rect4_def rect3_def rect2_def)
  have hm: "is_tensor2 1 2 ?m"
    by (simp add: is_tensor2_def rect2_def)
  have hs: "(0::nat) < 2"
    by simp
  have u: "[0..<2] = [0, Suc 0]"
    by (simp add: upt_rec)
  have e: "max_reduce_src ?x (Some (ByteMask ?m)) None
      = (Inr (T3 \<lparr>shape = [1, 1, 1], data = [[[Fin 1]]]\<rparr>), None)"
    using max_source_masked_maximum [OF hx hm hs, of None]
    by (simp add: max_reduce_src_def fill_masked_def masked_fill_def mask_view_def fits_def
        bidx_def max_dim1_def tab4_def tab3_def tab2_def at4_def at2_def maxl_def u
        less_eq_fval_def max_def)
  from hx hm hs e show ?thesis by simp
qed

section \<open>Softmax of one column\<close>

lemma foldl_fadd_Fin: "foldl fadd (Fin a) (map Fin rs) = Fin (a + sum_list rs)"
  by (induction rs arbitrary: a) (simp_all add: add.assoc)

lemma fsum_Fin: "fsum (map Fin rs) = Fin (sum_list rs)"
  by (simp add: fsum_def foldl_fadd_Fin)

lemma sum_list_pos_member:
  fixes rs :: "real list"
  assumes "\<forall>r\<in>set rs. 0 \<le> r" "r0 \<in> set rs" "0 < r0"
  shows "0 < sum_list rs"
proof -
  from assms(2) obtain ys zs where s: "rs = ys @ r0 # zs"
    by (auto simp add: in_set_conv_decomp)
  with assms(1) have "0 \<le> sum_list ys" "0 \<le> sum_list zs"
    by (simp_all add: sum_list_nonneg)
  with assms(3) s show ?thesis by simp
qed

lemma sum_list_divide:
  fixes rs :: "real list"
  shows "sum_list (map (\<lambda>r. r / z) rs) = sum_list rs / z"
  by (induction rs) (simp_all add: add_divide_distrib)

lemma maxl_Fin:
  assumes "\<forall>v\<in>set vs. v = NInf \<or> is_finite v" "\<exists>v\<in>set vs. is_finite v"
  shows "\<exists>m. maxl vs = Fin m"
proof -
  from assms(2) obtain v0 where v0: "v0 \<in> set vs" "is_finite v0" by blast
  then have ne: "vs \<noteq> []" by auto
  then have mx: "maxl vs = Max (set vs)" by (rule maxl_Max)
  have "Max (set vs) \<in> set vs" using ne by simp
  with assms(1) have c: "Max (set vs) = NInf \<or> is_finite (Max (set vs))" by blast
  have "v0 \<le> Max (set vs)" using v0(1) by simp
  with v0(2) have "Max (set vs) \<noteq> NInf"
    by - (cases v0; auto simp add: less_eq_fval_def)
  with c have "is_finite (Max (set vs))" by blast
  then show ?thesis using mx by - (cases "Max (set vs)"; simp)
qed

lemma softmaxl_good:
  assumes "\<forall>v\<in>set vs. v = NInf \<or> is_finite v" "\<exists>v\<in>set vs. is_finite v"
  shows "\<exists>rs. softmaxl vs = map Fin rs \<and> length rs = length vs \<and> sum_list rs = 1"
proof -
  from maxl_Fin [OF assms] obtain m where m: "maxl vs = Fin m" by blast
  define e where "e v = (case v of Fin a \<Rightarrow> exp (a - m) | _ \<Rightarrow> 0)" for v
  have ev: "fexp (fsub v (Fin m)) = Fin (e v)" if "v \<in> set vs" for v
  proof -
    from that assms(1) have "v = NInf \<or> is_finite v" by blast
    then show ?thesis by - (cases v; simp add: e_def fsub_def)
  qed
  have es: "map (\<lambda>v. fexp (fsub v (Fin m))) vs = map Fin (map e vs)"
    using ev by simp
  have nonneg: "\<forall>r\<in>set (map e vs). 0 \<le> r"
    by (auto simp add: e_def split: fval.splits)
  from assms(2) obtain v0 where v0: "v0 \<in> set vs" "is_finite v0" by blast
  then have "e v0 \<in> set (map e vs)" "0 < e v0"
    by (auto simp add: e_def split: fval.splits)
  with nonneg have Z: "0 < sum_list (map e vs)"
    by (rule sum_list_pos_member)
  let ?Z = "sum_list (map e vs)"
  have s1: "softmaxl vs = map (\<lambda>u. fdiv u (Fin ?Z)) (map Fin (map e vs))"
    by (simp only: softmaxl_def Let_def m es fsum_Fin)
  have s2: "map (\<lambda>u. fdiv u (Fin ?Z)) (map Fin rs) = map Fin (map (\<lambda>r. r / ?Z) rs)" for rs
    using Z by simp
  have sm: "softmaxl vs = map Fin (map (\<lambda>r. r / ?Z) (map e vs))"
    by (simp only: s1 s2)
  have "sum_list (map (\<lambda>r. r / ?Z) (map e vs)) = ?Z / ?Z"
    by (rule sum_list_divide)
  with Z have "sum_list (map (\<lambda>r. r / ?Z) (map e vs)) = 1" by simp
  with sm show ?thesis by (intro exI [of _ "map (\<lambda>r. r / ?Z) (map e vs)"]) simp
qed

section \<open>Tensors as tables\<close>

lemma at4_tab:
  "t < T \<Longrightarrow> s < S \<Longrightarrow> b < B \<Longrightarrow> c < C \<Longrightarrow>
     at4 \<lparr>shape = sh, data = tab4 T S B C f\<rparr> t s b c = f t s b c"
  by (simp add: at4_def tab4_nth)

lemma at3_tab:
  "i < n0 \<Longrightarrow> j < n1 \<Longrightarrow> k < n2 \<Longrightarrow>
     at3 \<lparr>shape = sh, data = tab3 n0 n1 n2 f\<rparr> i j k = f i j k"
  by (simp add: at3_def tab3_nth)

lemma col1_tab:
  assumes "t < T" "b < B" "c < C"
  shows "map (\<lambda>s. at4 \<lparr>shape = sh, data = tab4 T S B C f\<rparr> t s b c) [0..<S]
    = map (\<lambda>s. f t s b c) [0..<S]"
  by (rule map_cong [OF refl]) (use assms in \<open>simp add: at4_tab\<close>)

lemma col0_tab:
  assumes "s < S" "b < B" "c < C"
  shows "map (\<lambda>t. at4 \<lparr>shape = sh, data = tab4 T S B C f\<rparr> t s b c) [0..<T]
    = map (\<lambda>t. f t s b c) [0..<T]"
  by (rule map_cong [OF refl]) (use assms in \<open>simp add: at4_tab\<close>)

lemma is_tensor4_tab:
  "is_tensor4 T S B C x \<Longrightarrow> x = \<lparr>shape = [T, S, B, C], data = tab4 T S B C (at4 x)\<rparr>"
  using rect4_tab4_eq [of T S B C "data x"]
  by (simp add: is_tensor4_def at4_def [abs_def])

lemma is_tensor4_table: "is_tensor4 T S B C \<lparr>shape = [T, S, B, C], data = tab4 T S B C f\<rparr>"
  by (simp add: is_tensor4_def rect4_tab4)

lemma list_ex_map_upt: "list_ex Q (map g [0..<n]) = (\<exists>i<n. Q (g i))"
  by (auto simp add: list_ex_iff)

lemma list_ex_tab2: "list_ex (list_ex P) (tab2 n0 n1 f) = (\<exists>i<n0. \<exists>j<n1. P (f i j))"
  by (simp only: tab2_def list_ex_map_upt)

lemma list_ex_tab3:
  "list_ex (list_ex (list_ex P)) (tab3 n0 n1 n2 f) = (\<exists>i<n0. \<exists>j<n1. \<exists>k<n2. P (f i j k))"
  by (simp only: tab3_def list_ex_map_upt list_ex_tab2)

lemma list_ex_tab4:
  "list_ex (list_ex (list_ex (list_ex P))) (tab4 n0 n1 n2 n3 f)
     = (\<exists>i<n0. \<exists>j<n1. \<exists>k<n2. \<exists>l<n3. P (f i j k l))"
  by (simp only: tab4_def list_ex_map_upt list_ex_tab3)

lemma isnan_any4_tab:
  "isnan_any4 \<lparr>shape = sh, data = tab4 T S B C f\<rparr>
     = (\<exists>t<T. \<exists>s<S. \<exists>b<B. \<exists>c<C. f t s b c = NaN)"
  by (simp add: isnan_any4_def list_ex_tab4)

lemma isnan_any3_tab:
  "isnan_any3 \<lparr>shape = sh, data = tab3 n0 n1 n2 f\<rparr>
     = (\<exists>i<n0. \<exists>j<n1. \<exists>k<n2. f i j k = NaN)"
  by (simp add: isnan_any3_def list_ex_tab3)

lemma all_finite4_at:
  assumes "is_tensor4 T S B C x" "all_finite4 x" "t < T" "s < S" "b < B" "c < C"
  shows "is_finite (at4 x t s b c)"
  using assms
  by (simp add: is_tensor4_def rect4_def rect3_def rect2_def all_finite4_def at4_def
      list_all_length)

lemma all_finite2_at:
  assumes "is_tensor2 n0 n1 w" "all_finite2 w" "i < n0" "j < n1"
  shows "is_finite (at2 w i j)"
  using assms
  by (simp add: is_tensor2_def rect2_def all_finite2_def at2_def list_all_length)

lemma finite_map_Fin: "\<forall>v\<in>set vs. is_finite v \<Longrightarrow> vs = map Fin (map rval vs)"
proof (induction vs)
  case Nil
  then show ?case by simp
next
  case (Cons v vs)
  then have "is_finite v" by simp
  then have "v = Fin (rval v)" by - (cases v; simp)
  with Cons show ?case by simp
qed

lemma fsum_finite: "\<forall>v\<in>set vs. is_finite v \<Longrightarrow> is_finite (fsum vs)"
  using finite_map_Fin [of vs] fsum_Fin [of "map rval vs"] by simp

lemma fmul_finite: "is_finite a \<Longrightarrow> is_finite b \<Longrightarrow> is_finite (fmul a b)"
  by (cases a; cases b) simp_all

lemma finite_not_NaN: "is_finite a \<Longrightarrow> a \<noteq> NaN"
  by (cases a) simp_all

end
